theory Spec2Isabelle
  imports Complex_Main "HOL-Library.Monad_Syntax"
begin

section \<open>Numbers\<close>

text \<open>
  The simulation computes with JavaScript numbers, which are IEEE doubles. They are
  modelled as real numbers: every operation is exact. The code rounds after each
  operation, so a length it computes through a square root, a division and a
  multiplication agrees with the exact one only up to rounding. A statement about such a
  length therefore carries a tolerance. Exact values are stated only where the code's
  arithmetic is exact as well: for zero vectors and for the small numbers of the examples.

  The one operation that leaves the reals is a division by zero (JavaScript answers
  \<open>Infinity\<close> or \<open>NaN\<close>): it is the value \<open>None\<close>, and every function that divides by a
  variable returns an option. Identifier strings, timestamps, log output and drawing are
  not modelled.
\<close>

definition js_div :: "real \<Rightarrow> real \<Rightarrow> real option" where
  "js_div a b = (if b = 0 then None else Some (a / b))"

text \<open>\<open>a || b\<close> on numbers: zero is falsy. On strings: the empty string is falsy.\<close>

definition js_or :: "real \<Rightarrow> real \<Rightarrow> real" where
  "js_or a b = (if a = 0 then b else a)"

definition js_or_string :: "string \<Rightarrow> string \<Rightarrow> string" where
  "js_or_string a b = (if a = [] then b else a)"

section \<open>Vector2D.js\<close>

text \<open>The components \<open>x\<close> and \<open>y\<close> are the fields \<open>vx\<close> and \<open>vy\<close>.\<close>

record vector2d =
  vx :: real
  vy :: real

text \<open>\<open>new Vector2D(x, y)\<close>\<close>

definition Vector2D :: "real \<Rightarrow> real \<Rightarrow> vector2d" where
  "Vector2D a b = \<lparr>vx = a, vy = b\<rparr>"

text \<open>
  The mutating methods return \<open>this\<close>; here they return the new value of the vector.
  The static forms \<open>Vector2D.add\<close>, \<open>Vector2D.subtract\<close> and \<open>Vector2D.multiply\<close>
  compute the same components into a fresh vector, so one function stands for both.
\<close>

definition Vector2D_add :: "vector2d \<Rightarrow> vector2d \<Rightarrow> vector2d" where
  "Vector2D_add this v = \<lparr>vx = vx this + vx v, vy = vy this + vy v\<rparr>"

definition Vector2D_subtract :: "vector2d \<Rightarrow> vector2d \<Rightarrow> vector2d" where
  "Vector2D_subtract this v = \<lparr>vx = vx this - vx v, vy = vy this - vy v\<rparr>"

definition Vector2D_multiply :: "vector2d \<Rightarrow> real \<Rightarrow> vector2d" where
  "Vector2D_multiply this scalar = \<lparr>vx = vx this * scalar, vy = vy this * scalar\<rparr>"

definition Vector2D_divide :: "vector2d \<Rightarrow> real \<Rightarrow> vector2d option" where
  "Vector2D_divide this scalar =
     (if scalar \<noteq> 0 then
        do {
          x' \<leftarrow> js_div (vx this) scalar;
          y' \<leftarrow> js_div (vy this) scalar;
          Some \<lparr>vx = x', vy = y'\<rparr>
        }
      else Some this)"

definition Vector2D_magnitude :: "vector2d \<Rightarrow> real" where
  "Vector2D_magnitude this = sqrt (vx this * vx this + vy this * vy this)"

definition Vector2D_magnitudeSquared :: "vector2d \<Rightarrow> real" where
  "Vector2D_magnitudeSquared this = vx this * vx this + vy this * vy this"

definition Vector2D_normalize :: "vector2d \<Rightarrow> vector2d option" where
  "Vector2D_normalize this =
     (let mag = Vector2D_magnitude this in
      if mag > 0 then Vector2D_divide this mag else Some this)"

definition Vector2D_setMagnitude :: "vector2d \<Rightarrow> real \<Rightarrow> vector2d option" where
  "Vector2D_setMagnitude this mag =
     do { n \<leftarrow> Vector2D_normalize this; Some (Vector2D_multiply n mag) }"

definition Vector2D_limit :: "vector2d \<Rightarrow> real \<Rightarrow> vector2d option" where
  "Vector2D_limit this mx =
     (let magSq = Vector2D_magnitudeSquared this in
      if magSq > mx * mx then
        do { n \<leftarrow> Vector2D_normalize this; Some (Vector2D_multiply n mx) }
      else Some this)"

definition Vector2D_distanceTo :: "vector2d \<Rightarrow> vector2d \<Rightarrow> real" where
  "Vector2D_distanceTo this v =
     (let dx = vx v - vx this; dy = vy v - vy this in sqrt (dx * dx + dy * dy))"

text \<open>\<open>angle()\<close> is \<open>Math.atan2(this.y, this.x)\<close>, written out by quadrant.\<close>

definition Vector2D_angle :: "vector2d \<Rightarrow> real" where
  "Vector2D_angle this =
     (let a = vx this; b = vy this in
      if a > 0 then arctan (b / a)
      else if a < 0 then (if b \<ge> 0 then arctan (b / a) + pi else arctan (b / a) - pi)
      else if b > 0 then pi / 2
      else if b < 0 then - (pi / 2)
      else 0)"

section \<open>MathUtils.js\<close>

definition MathUtils_clamp :: "real \<Rightarrow> real \<Rightarrow> real \<Rightarrow> real" where
  "MathUtils_clamp val lo hi = min (max val lo) hi"

definition MathUtils_map :: "real \<Rightarrow> real \<Rightarrow> real \<Rightarrow> real \<Rightarrow> real \<Rightarrow> real option" where
  "MathUtils_map val inMin inMax outMin outMax =
     do { q \<leftarrow> js_div ((val - inMin) * (outMax - outMin)) (inMax - inMin); Some (q + outMin) }"

text \<open>
  \<open>angleDifference\<close> runs two \<open>while\<close> loops, each a recursive function here. Both end:
  every round takes one full turn off the distance to the interval, which
  \<open>MathUtils_wrap_measure\<close> counts in turns.
\<close>

definition MathUtils_wrap_measure :: "real \<Rightarrow> nat" where
  "MathUtils_wrap_measure d = nat \<lceil>d / (pi * 2)\<rceil>"

function angleDifference_down :: "real \<Rightarrow> real" where
  "angleDifference_down diff = (if diff > pi then angleDifference_down (diff - pi * 2) else diff)"
  by pat_completeness auto
termination
proof (relation "measure MathUtils_wrap_measure")
  show "wf (measure MathUtils_wrap_measure)" by simp
next
  fix diff :: real
  assume gt: "pi < diff"
  have eq: "(diff - pi * 2) / (pi * 2) = diff / (pi * 2) - 1"
    by (simp add: diff_divide_distrib)
  have "0 < diff" using gt pi_gt_zero by linarith
  then have "0 < diff / (pi * 2)" by simp
  then have "0 < \<lceil>diff / (pi * 2)\<rceil>" by linarith
  then have "nat (\<lceil>diff / (pi * 2)\<rceil> - 1) < nat \<lceil>diff / (pi * 2)\<rceil>" by linarith
  then have "MathUtils_wrap_measure (diff - pi * 2) < MathUtils_wrap_measure diff"
    unfolding MathUtils_wrap_measure_def eq by simp
  then show "(diff - pi * 2, diff) \<in> measure MathUtils_wrap_measure"
    by simp
qed

function angleDifference_up :: "real \<Rightarrow> real" where
  "angleDifference_up diff = (if diff < - pi then angleDifference_up (diff + pi * 2) else diff)"
  by pat_completeness auto
termination
proof (relation "measure (\<lambda>d. MathUtils_wrap_measure (- d))")
  show "wf (measure (\<lambda>d. MathUtils_wrap_measure (- d)))" by simp
next
  fix diff :: real
  assume lt: "diff < - pi"
  define e where "e = - diff"
  have eq: "(e - pi * 2) / (pi * 2) = e / (pi * 2) - 1"
    by (simp add: diff_divide_distrib)
  have "0 < e" using lt pi_gt_zero unfolding e_def by linarith
  then have "0 < e / (pi * 2)" by simp
  then have "0 < \<lceil>e / (pi * 2)\<rceil>" by linarith
  then have "nat (\<lceil>e / (pi * 2)\<rceil> - 1) < nat \<lceil>e / (pi * 2)\<rceil>" by linarith
  then have "MathUtils_wrap_measure (e - pi * 2) < MathUtils_wrap_measure e"
    unfolding MathUtils_wrap_measure_def eq by simp
  moreover have "- (diff + pi * 2) = e - pi * 2" by (simp add: e_def)
  ultimately have "MathUtils_wrap_measure (- (diff + pi * 2)) < MathUtils_wrap_measure (- diff)"
    by (simp only: e_def)
  then show "(diff + pi * 2, diff) \<in> measure (\<lambda>d. MathUtils_wrap_measure (- d))"
    by simp
qed

definition MathUtils_angleDifference :: "real \<Rightarrow> real \<Rightarrow> real" where
  "MathUtils_angleDifference angle1 angle2 =
     angleDifference_up (angleDifference_down (angle2 - angle1))"

section \<open>config.js\<close>

text \<open>
  \<open>CONFIG\<close> is a global object that can be changed while the program runs; the functions
  that read it take its current value as an argument. Only the entries read by the
  modelled code are kept.
\<close>

record config =
  canvas_width :: real
  canvas_height :: real
  target_size :: real
  target_defaultSpeed :: real
  chaser_size :: real
  chaser_defaultSpeed :: real
  chaser_detectionRadius :: real
  chaser_startX :: real
  chaser_startY :: real
  detection_baseSensitivity :: real
  physics_captureDistance :: real
  physics_boundaryMargin :: real
  physics_friction :: real
  simulation_defaultFPS :: real
  simulation_captureDelay :: nat
  predictive_lookahead :: real
  patrol_patrolSpeed :: real
  patrol_patrolRadius :: real
  patrol_patrolAngularSpeed :: real

definition CONFIG :: config where
  "CONFIG = \<lparr>
     canvas_width = 1400, canvas_height = 900,
     target_size = 80, target_defaultSpeed = 8,
     chaser_size = 150, chaser_defaultSpeed = 9, chaser_detectionRadius = 300,
     chaser_startX = 700, chaser_startY = 450,
     detection_baseSensitivity = 9 / 10,
     physics_captureDistance = 60, physics_boundaryMargin = 100, physics_friction = 98 / 100,
     simulation_defaultFPS = 60, simulation_captureDelay = 2000,
     predictive_lookahead = 10,
     patrol_patrolSpeed = 1 / 2, patrol_patrolRadius = 100, patrol_patrolAngularSpeed = 5 / 100
   \<rparr>"

section \<open>Agent.js\<close>

text \<open>The field \<open>size\<close> is \<open>agent_size\<close> here.\<close>

record agent =
  position :: vector2d
  velocity :: vector2d
  acceleration :: vector2d
  agent_size :: real
  mass :: real
  maxSpeed :: real
  maxForce :: real
  active :: bool
  trail :: "vector2d list"
  maxTrailLength :: nat

definition Agent_updateTrail :: "'a agent_scheme \<Rightarrow> 'a agent_scheme" where
  "Agent_updateTrail this =
     (let pushed = trail this @ [position this] in
      this\<lparr>trail := (if length pushed > maxTrailLength this then tl pushed else pushed)\<rparr>)"

text \<open>\<open>update(deltaTime = 1)\<close>: every caller in the modelled code passes \<open>deltaTime\<close>.\<close>

definition Agent_update :: "'a agent_scheme \<Rightarrow> real \<Rightarrow> 'a agent_scheme option" where
  "Agent_update this deltaTime =
     (if \<not> active this then Some this
      else do {
        let v1 = Vector2D_add (velocity this) (acceleration this);
        v2 \<leftarrow> Vector2D_limit v1 (maxSpeed this);
        let p = Vector2D_add (position this) (Vector2D_multiply v2 deltaTime);
        let a = Vector2D_multiply (acceleration this) 0;
        Some (Agent_updateTrail (this\<lparr>velocity := v2, position := p, acceleration := a\<rparr>))
      })"

definition Agent_applyForce :: "'a agent_scheme \<Rightarrow> vector2d \<Rightarrow> 'a agent_scheme option" where
  "Agent_applyForce this force =
     do {
       k \<leftarrow> js_div 1 (mass this);
       let f = Vector2D_multiply force k;
       Some (this\<lparr>acceleration := Vector2D_add (acceleration this) f\<rparr>)
     }"

definition Agent_setPosition :: "'a agent_scheme \<Rightarrow> real \<Rightarrow> real \<Rightarrow> 'a agent_scheme" where
  "Agent_setPosition this a b = this\<lparr>position := Vector2D a b\<rparr>"

definition Agent_setVelocity :: "'a agent_scheme \<Rightarrow> real \<Rightarrow> real \<Rightarrow> 'a agent_scheme" where
  "Agent_setVelocity this a b = this\<lparr>velocity := Vector2D a b\<rparr>"

definition Agent_distanceTo :: "'a agent_scheme \<Rightarrow> 'b agent_scheme \<Rightarrow> real" where
  "Agent_distanceTo this other = Vector2D_distanceTo (position this) (position other)"

section \<open>Ligeirinho.js (the target)\<close>

datatype edge = edge_top | edge_right | edge_bottom | edge_left

record ligeirinho = agent +
  spawnEdge :: "edge option"
  escapeAttempts :: nat

text \<open>\<open>new Ligeirinho(x, y, speed)\<close>, with the defaults of the \<open>Agent\<close> constructor.\<close>

definition Ligeirinho :: "config \<Rightarrow> real \<Rightarrow> real \<Rightarrow> real \<Rightarrow> ligeirinho" where
  "Ligeirinho cfg a b speed = \<lparr>
     position = Vector2D a b, velocity = Vector2D 0 0, acceleration = Vector2D 0 0,
     agent_size = js_or (target_size cfg) 20, mass = 1,
     maxSpeed = js_or speed 10, maxForce = 1 / 2,
     active = True, trail = [], maxTrailLength = 50,
     spawnEdge = None, escapeAttempts = 0 \<rparr>"

text \<open>
  \<open>spawnAtRandomEdge\<close> draws three random numbers: \<open>r0\<close> picks the edge, \<open>r1\<close> the point
  on it and \<open>r2\<close> the direction.
\<close>

definition Ligeirinho_spawnAtRandomEdge ::
  "ligeirinho \<Rightarrow> real \<Rightarrow> real \<Rightarrow> real \<Rightarrow> real \<Rightarrow> real \<Rightarrow> ligeirinho option" where
  "Ligeirinho_spawnAtRandomEdge this canvasWidth canvasHeight r0 r1 r2 =
     (let e = \<lfloor>r0 * 4\<rfloor>;
          named = (if e = 0 then Some edge_top else if e = 1 then Some edge_right
                   else if e = 2 then Some edge_bottom else if e = 3 then Some edge_left
                   else None);
          (a, b, va, vb) =
            (if e = 0 then (r1 * canvasWidth, 0, (r2 - 1 / 2) * 2, 1)
             else if e = 1 then (canvasWidth, r1 * canvasHeight, - 1, (r2 - 1 / 2) * 2)
             else if e = 2 then (r1 * canvasWidth, canvasHeight, (r2 - 1 / 2) * 2, - 1)
             else (0, r1 * canvasHeight, 1, (r2 - 1 / 2) * 2))
      in do {
        n \<leftarrow> Vector2D_normalize (Vector2D va vb);
        let v = Vector2D_multiply n (maxSpeed this);
        Some (Agent_setVelocity (Agent_setPosition (this\<lparr>spawnEdge := named\<rparr>) a b) (vx v) (vy v))
      })"

definition Ligeirinho_update :: "ligeirinho \<Rightarrow> real \<Rightarrow> ligeirinho option" where
  "Ligeirinho_update this deltaTime =
     do {
       this1 \<leftarrow> Agent_update this deltaTime;
       v \<leftarrow> Vector2D_setMagnitude (velocity this1) (maxSpeed this1);
       Some (this1\<lparr>velocity := v\<rparr>)
     }"

text \<open>\<open>hasEscaped(canvasWidth, canvasHeight, margin = 50)\<close>; \<open>None\<close> is the omitted argument.\<close>

definition Ligeirinho_hasEscaped ::
  "ligeirinho \<Rightarrow> real \<Rightarrow> real \<Rightarrow> real option \<Rightarrow> bool \<times> ligeirinho" where
  "Ligeirinho_hasEscaped this canvasWidth canvasHeight margin_arg =
     (let margin = (case margin_arg of None \<Rightarrow> 50 | Some m \<Rightarrow> m);
          escaped = (vx (position this) < - margin
                     \<or> vx (position this) > canvasWidth + margin
                     \<or> vy (position this) < - margin
                     \<or> vy (position this) > canvasHeight + margin)
      in (escaped, if escaped then this\<lparr>escapeAttempts := escapeAttempts this + 1\<rparr> else this))"

section \<open>Frajola.js (the chaser)\<close>

text \<open>
  The chaser holds references to two objects that others own as well: its target, a
  \<open>Ligeirinho\<close>, and its strategy, one of the three strategy objects of the simulation.
  A target reference is an address in a store of \<open>Ligeirinho\<close> objects; a strategy
  reference is the key of the strategy in the simulation's table.
\<close>

type_synonym ref = nat

type_synonym store = "ref \<Rightarrow> ligeirinho"

datatype strategy_key = Direct | Predictive | Patrol

record frajola = agent +
  detectionRadius :: real
  target :: "ref option"
  targetDetected :: bool
  captureCount :: nat
  totalPursuitTime :: real
  currentPursuitTime :: real
  strategy :: "strategy_key option"

text \<open>\<open>new Frajola(x, y, speed)\<close>\<close>

definition Frajola :: "config \<Rightarrow> real \<Rightarrow> real \<Rightarrow> real \<Rightarrow> frajola" where
  "Frajola cfg a b speed = \<lparr>
     position = Vector2D a b, velocity = Vector2D 0 0, acceleration = Vector2D 0 0,
     agent_size = js_or (chaser_size cfg) 20, mass = 1,
     maxSpeed = js_or speed 10, maxForce = 1 / 2,
     active = True, trail = [], maxTrailLength = 50,
     detectionRadius = chaser_detectionRadius cfg,
     target = None, targetDetected = False,
     captureCount = 0, totalPursuitTime = 0, currentPursuitTime = 0,
     strategy = None \<rparr>"

definition Frajola_setStrategy :: "frajola \<Rightarrow> strategy_key \<Rightarrow> frajola" where
  "Frajola_setStrategy this s = this\<lparr>strategy := Some s\<rparr>"

definition Frajola_setTarget :: "frajola \<Rightarrow> ref \<Rightarrow> frajola" where
  "Frajola_setTarget this r = this\<lparr>target := Some r\<rparr>"

text \<open>
  \<open>attemptCapture(captureDistance = CONFIG.physics.captureDistance)\<close>; \<open>None\<close> is the
  omitted argument.
\<close>

definition Frajola_attemptCapture ::
  "config \<Rightarrow> store \<Rightarrow> frajola \<Rightarrow> real option \<Rightarrow> bool \<times> frajola" where
  "Frajola_attemptCapture cfg st this captureDistance_arg =
     (let captureDistance =
            (case captureDistance_arg of None \<Rightarrow> physics_captureDistance cfg | Some d \<Rightarrow> d)
      in case target this of
           None \<Rightarrow> (False, this)
         | Some r \<Rightarrow>
             if \<not> targetDetected this then (False, this)
             else
               let distance = Agent_distanceTo this (st r) in
               if distance < captureDistance then
                 (True, this\<lparr>captureCount := captureCount this + 1,
                             totalPursuitTime := totalPursuitTime this + currentPursuitTime this,
                             currentPursuitTime := 0\<rparr>)
               else (False, this))"

section \<open>Strategy.js, DirectStrategy.js, PredictiveStrategy.js, PatrolStrategy.js\<close>

text \<open>The field \<open>active\<close> of a strategy is \<open>is_active\<close> here; an agent has an \<open>active\<close>
  field of its own.\<close>

record strategy_base =
  is_active :: bool

datatype patrol_state = patrol | pursue

record predictiveStrategy = strategy_base +
  lookahead :: real
  adaptiveLookahead :: bool

record patrolStrategy = strategy_base +
  patrolSpeed :: real
  patrolRadius :: real
  angularSpeed :: real
  state :: patrol_state
  patrolTime :: nat
  centerX :: real
  centerY :: real

definition DirectStrategy :: strategy_base where
  "DirectStrategy = \<lparr>is_active = True\<rparr>"

definition PredictiveStrategy :: "config \<Rightarrow> predictiveStrategy" where
  "PredictiveStrategy cfg =
     \<lparr>is_active = True, lookahead = predictive_lookahead cfg, adaptiveLookahead = True\<rparr>"

definition PatrolStrategy :: "config \<Rightarrow> patrolStrategy" where
  "PatrolStrategy cfg = \<lparr>
     is_active = True,
     patrolSpeed = patrol_patrolSpeed cfg,
     patrolRadius = patrol_patrolRadius cfg,
     angularSpeed = patrol_patrolAngularSpeed cfg,
     state = patrol, patrolTime = 0,
     centerX = canvas_width cfg / 2, centerY = canvas_height cfg / 2 \<rparr>"

definition Strategy_activate :: "'a strategy_base_scheme \<Rightarrow> 'a strategy_base_scheme" where
  "Strategy_activate this = this\<lparr>is_active := True\<rparr>"

definition Strategy_deactivate :: "'a strategy_base_scheme \<Rightarrow> 'a strategy_base_scheme" where
  "Strategy_deactivate this = this\<lparr>is_active := False\<rparr>"

definition Strategy_seek ::
  "vector2d \<Rightarrow> vector2d \<Rightarrow> vector2d \<Rightarrow> real \<Rightarrow> real \<Rightarrow> vector2d option" where
  "Strategy_seek currentPos currentVel targetPos mxSpeed mxForce =
     do {
       n \<leftarrow> Vector2D_normalize (Vector2D_subtract targetPos currentPos);
       let desired = Vector2D_multiply n mxSpeed;
       Vector2D_limit (Vector2D_subtract desired currentVel) mxForce
     }"

text \<open>
  \<open>calculate(chaser, target, targetDetected)\<close>: the target may be \<open>null\<close>, the chaser
  is always an object; \<open>detected\<close> is the argument \<open>targetDetected\<close>.
\<close>

definition DirectStrategy_calculate ::
  "strategy_base \<Rightarrow> 'a agent_scheme \<Rightarrow> 'b agent_scheme option \<Rightarrow> bool \<Rightarrow> vector2d option" where
  "DirectStrategy_calculate this chaser tgt detected =
     (if \<not> is_active this \<or> tgt = None then Some (Vector2D 0 0)
      else Strategy_seek (position chaser) (velocity chaser) (position (the tgt))
             (maxSpeed chaser) (maxForce chaser))"

definition PredictiveStrategy_calculateAdaptiveLookahead :: "real \<Rightarrow> real option" where
  "PredictiveStrategy_calculateAdaptiveLookahead distance =
     (let minLookahead = 3; maxLookahead = 20; minDistance = 0; maxDistance = 400 in
      MathUtils_map (MathUtils_clamp distance minDistance maxDistance)
        minDistance maxDistance minLookahead maxLookahead)"

definition PredictiveStrategy_predictFuturePosition ::
  "config \<Rightarrow> 'b agent_scheme \<Rightarrow> real \<Rightarrow> vector2d" where
  "PredictiveStrategy_predictFuturePosition cfg t lookahead_frames =
     (let prediction = Vector2D_add (position t) (Vector2D_multiply (velocity t) lookahead_frames) in
      \<lparr>vx = MathUtils_clamp (vx prediction) 0 (canvas_width cfg),
       vy = MathUtils_clamp (vy prediction) 0 (canvas_height cfg)\<rparr>)"

definition PredictiveStrategy_calculate ::
  "config \<Rightarrow> predictiveStrategy \<Rightarrow> 'a agent_scheme \<Rightarrow> 'b agent_scheme option \<Rightarrow> bool
     \<Rightarrow> vector2d option" where
  "PredictiveStrategy_calculate cfg this chaser tgt detected =
     (if \<not> is_active this \<or> tgt = None then Some (Vector2D 0 0)
      else do {
        let t = the tgt;
        let distance = Agent_distanceTo chaser t;
        effectiveLookahead \<leftarrow>
          (if adaptiveLookahead this
           then PredictiveStrategy_calculateAdaptiveLookahead distance
           else Some (lookahead this));
        let targetPos =
          (if detected
           then PredictiveStrategy_predictFuturePosition cfg t effectiveLookahead
           else position t);
        Strategy_seek (position chaser) (velocity chaser) targetPos
          (maxSpeed chaser) (maxForce chaser)
      })"

definition PatrolStrategy_updateState :: "patrolStrategy \<Rightarrow> bool \<Rightarrow> patrolStrategy" where
  "PatrolStrategy_updateState this detected =
     (if detected then this\<lparr>state := pursue\<rparr> else this\<lparr>state := patrol\<rparr>)"

definition PatrolStrategy_patrolBehavior ::
  "patrolStrategy \<Rightarrow> 'a agent_scheme \<Rightarrow> vector2d option" where
  "PatrolStrategy_patrolBehavior this chaser =
     (let angle = real (patrolTime this) * angularSpeed this;
          targetX = centerX this + cos angle * patrolRadius this;
          targetY = centerY this + sin angle * patrolRadius this;
          targetPos = Vector2D targetX targetY
      in do {
        n \<leftarrow> Vector2D_normalize (Vector2D_subtract targetPos (position chaser));
        let desired = Vector2D_multiply n (maxSpeed chaser * patrolSpeed this);
        Vector2D_limit (Vector2D_subtract desired (velocity chaser)) (maxForce chaser)
      })"

definition PatrolStrategy_pursueBehavior ::
  "'a agent_scheme \<Rightarrow> 'b agent_scheme \<Rightarrow> vector2d option" where
  "PatrolStrategy_pursueBehavior chaser t =
     Strategy_seek (position chaser) (velocity chaser) (position t)
       (maxSpeed chaser) (maxForce chaser)"

text \<open>The Patrol strategy changes its own fields, so \<open>calculate\<close> returns it as well.\<close>

definition PatrolStrategy_calculate ::
  "patrolStrategy \<Rightarrow> 'a agent_scheme \<Rightarrow> 'b agent_scheme option \<Rightarrow> bool
     \<Rightarrow> (vector2d \<times> patrolStrategy) option" where
  "PatrolStrategy_calculate this chaser tgt detected =
     (if \<not> is_active this then Some (Vector2D 0 0, this)
      else
        let this1 = PatrolStrategy_updateState this detected in
        if tgt \<noteq> None \<and> (state this1 = pursue \<or> detected) then
          do {
            steering \<leftarrow> PatrolStrategy_pursueBehavior chaser (the tgt);
            Some (steering, this1)
          }
        else
          do {
            steering \<leftarrow> PatrolStrategy_patrolBehavior this1 chaser;
            Some (steering, this1\<lparr>patrolTime := patrolTime this1 + 1\<rparr>)
          })"


section \<open>DetectionSystem.js\<close>

datatype detection_method = radius | cone | raycast

record detectionSystem =
  sensitivity :: real
  detectionMethod :: detection_method
  detectionHistory :: "bool list"
  ds_maxHistoryLength :: nat

definition DetectionSystem :: "config \<Rightarrow> detectionSystem" where
  "DetectionSystem cfg = \<lparr>
     sensitivity = detection_baseSensitivity cfg, detectionMethod = radius,
     detectionHistory = [], ds_maxHistoryLength = 60 \<rparr>"

definition DetectionSystem_radiusDetection ::
  "detectionSystem \<Rightarrow> frajola \<Rightarrow> 'b agent_scheme \<Rightarrow> bool" where
  "DetectionSystem_radiusDetection this chaser t =
     (let distance = Agent_distanceTo chaser t;
          effectiveRadius = detectionRadius chaser * sensitivity this
      in distance \<le> effectiveRadius)"

text \<open>\<open>coneDetection(chaser, target, coneAngle = Math.PI * 2 / 3)\<close>, called without the angle.\<close>

definition DetectionSystem_coneDetection ::
  "detectionSystem \<Rightarrow> frajola \<Rightarrow> 'b agent_scheme \<Rightarrow> bool" where
  "DetectionSystem_coneDetection this chaser t =
     (let coneAngle = pi * 2 / 3 in
      if \<not> DetectionSystem_radiusDetection this chaser t then False
      else
        let chaserDirection = Vector2D_angle (velocity chaser);
            toTarget = Vector2D_subtract (position t) (position chaser);
            targetDirection = Vector2D_angle toTarget;
            angleDiff = \<bar>MathUtils_angleDifference chaserDirection targetDirection\<bar>
        in angleDiff \<le> coneAngle / 2)"

definition DetectionSystem_raycastDetection ::
  "detectionSystem \<Rightarrow> frajola \<Rightarrow> 'b agent_scheme \<Rightarrow> bool" where
  "DetectionSystem_raycastDetection this chaser t =
     (if \<not> DetectionSystem_radiusDetection this chaser t then False else True)"

definition DetectionSystem_updateDetectionHistory :: "detectionSystem \<Rightarrow> bool \<Rightarrow> detectionSystem" where
  "DetectionSystem_updateDetectionHistory this detected =
     (let pushed = detectionHistory this @ [detected] in
      this\<lparr>detectionHistory :=
             (if length pushed > ds_maxHistoryLength this then tl pushed else pushed)\<rparr>)"

text \<open>\<open>detect(chaser, target)\<close> is called by the chaser on itself, so the chaser is an object.\<close>

definition DetectionSystem_detect ::
  "detectionSystem \<Rightarrow> frajola \<Rightarrow> 'b agent_scheme option \<Rightarrow> bool \<times> detectionSystem" where
  "DetectionSystem_detect this chaser tgt =
     (if tgt = None \<or> \<not> active (the tgt) then (False, this)
      else
        let t = the tgt;
            detected = (case detectionMethod this of
                          radius \<Rightarrow> DetectionSystem_radiusDetection this chaser t
                        | cone \<Rightarrow> DetectionSystem_coneDetection this chaser t
                        | raycast \<Rightarrow> DetectionSystem_raycastDetection this chaser t)
        in (detected, DetectionSystem_updateDetectionHistory this detected))"

section \<open>PhysicsEngine.js\<close>

record physicsEngine =
  gravity :: vector2d
  friction :: real
  canvasWidth :: real
  canvasHeight :: real
  boundaryMargin :: real

definition PhysicsEngine :: "config \<Rightarrow> physicsEngine" where
  "PhysicsEngine cfg = \<lparr>
     gravity = Vector2D 0 0, friction = physics_friction cfg,
     canvasWidth = canvas_width cfg, canvasHeight = canvas_height cfg,
     boundaryMargin = physics_boundaryMargin cfg \<rparr>"

text \<open>\<open>constrainToBounds(agent, damping = 0.8)\<close>: four tests in a row, each on the agent as
  the tests before it left it.\<close>

definition PhysicsEngine_constrainToBounds ::
  "physicsEngine \<Rightarrow> 'a agent_scheme \<Rightarrow> real \<Rightarrow> 'a agent_scheme" where
  "PhysicsEngine_constrainToBounds this a0 damping =
     (let halfSize = agent_size a0 / 2;
          a1 = (if vx (position a0) < halfSize
                then a0\<lparr>position := (position a0)\<lparr>vx := halfSize\<rparr>,
                        velocity := (velocity a0)\<lparr>vx := vx (velocity a0) * - damping\<rparr>\<rparr>
                else a0);
          a2 = (if vx (position a1) > canvasWidth this - halfSize
                then a1\<lparr>position := (position a1)\<lparr>vx := canvasWidth this - halfSize\<rparr>,
                        velocity := (velocity a1)\<lparr>vx := vx (velocity a1) * - damping\<rparr>\<rparr>
                else a1);
          a3 = (if vy (position a2) < halfSize
                then a2\<lparr>position := (position a2)\<lparr>vy := halfSize\<rparr>,
                        velocity := (velocity a2)\<lparr>vy := vy (velocity a2) * - damping\<rparr>\<rparr>
                else a2);
          a4 = (if vy (position a3) > canvasHeight this - halfSize
                then a3\<lparr>position := (position a3)\<lparr>vy := canvasHeight this - halfSize\<rparr>,
                        velocity := (velocity a3)\<lparr>vy := vy (velocity a3) * - damping\<rparr>\<rparr>
                else a3)
      in a4)"

section \<open>CollisionDetector.js\<close>

record collision =
  collision_type :: string
  collision_distance :: "real option"
  collision_position :: vector2d

record collisionDetector =
  captureDistance :: real
  collisionHistory :: "collision list"
  cd_maxHistoryLength :: nat

definition CollisionDetector :: "config \<Rightarrow> collisionDetector" where
  "CollisionDetector cfg = \<lparr>
     captureDistance = physics_captureDistance cfg,
     collisionHistory = [], cd_maxHistoryLength = 100 \<rparr>"

definition CollisionDetector_recordCollision ::
  "collisionDetector \<Rightarrow> string \<Rightarrow> 'a agent_scheme \<Rightarrow> 'b agent_scheme \<Rightarrow> real option
     \<Rightarrow> collisionDetector" where
  "CollisionDetector_recordCollision this ty agent1 agent2 distance =
     (let c = \<lparr>collision_type = ty, collision_distance = distance,
               collision_position = position agent1\<rparr>;
          pushed = collisionHistory this @ [c]
      in this\<lparr>collisionHistory :=
                (if length pushed > cd_maxHistoryLength this then tl pushed else pushed)\<rparr>)"

definition CollisionDetector_checkCapture ::
  "collisionDetector \<Rightarrow> 'a agent_scheme option \<Rightarrow> 'b agent_scheme option
     \<Rightarrow> bool \<times> collisionDetector" where
  "CollisionDetector_checkCapture this chaser tgt =
     (if chaser = None \<or> tgt = None \<or> \<not> active (the tgt) then (False, this)
      else
        let c = the chaser; t = the tgt;
            distance = Agent_distanceTo c t;
            captured = (distance < captureDistance this)
        in (captured,
            if captured then CollisionDetector_recordCollision this ''capture'' c t (Some distance)
            else this))"

section \<open>StatsTracker.js\<close>

text \<open>Durations are wall-clock times and are left out; the counters and the history of
  outcomes are kept.\<close>

datatype outcome = capture | escape

record attempt_record =
  record_type :: outcome
  attemptNumber :: nat
  record_strategy :: string
  record_distance :: "real option"

record statsTracker =
  attempts :: nat
  captures :: nat
  escapes :: nat
  attemptHistory :: "attempt_record list"
  st_maxHistoryLength :: nat

definition StatsTracker :: statsTracker where
  "StatsTracker = \<lparr>attempts = 0, captures = 0, escapes = 0, attemptHistory = [],
                    st_maxHistoryLength = 1000\<rparr>"


definition StatsTracker_trimHistory :: "statsTracker \<Rightarrow> statsTracker" where
  "StatsTracker_trimHistory this =
     (if length (attemptHistory this) > st_maxHistoryLength this
      then this\<lparr>attemptHistory :=
                  drop (length (attemptHistory this) - st_maxHistoryLength this) (attemptHistory this)\<rparr>
      else this)"

definition StatsTracker_recordCapture :: "statsTracker \<Rightarrow> string \<Rightarrow> real \<Rightarrow> statsTracker" where
  "StatsTracker_recordCapture this strategy_name distance =
     (let r = \<lparr>record_type = capture, attemptNumber = attempts this,
               record_strategy = js_or_string strategy_name ''unknown'',
               record_distance = Some (js_or distance 0)\<rparr>
      in StatsTracker_trimHistory
           (this\<lparr>captures := captures this + 1, attemptHistory := attemptHistory this @ [r]\<rparr>))"

definition StatsTracker_recordEscape :: "statsTracker \<Rightarrow> string \<Rightarrow> statsTracker" where
  "StatsTracker_recordEscape this strategy_name =
     (let r = \<lparr>record_type = escape, attemptNumber = attempts this,
               record_strategy = js_or_string strategy_name ''unknown'',
               record_distance = None\<rparr>
      in StatsTracker_trimHistory
           (this\<lparr>escapes := escapes this + 1, attemptHistory := attemptHistory this @ [r]\<rparr>))"

section \<open>main.js (the simulation)\<close>

record strategies =
  direct_strategy :: strategy_base
  predictive_strategy :: predictiveStrategy
  patrol_strategy :: patrolStrategy

record sim_config =
  targetSpeed :: real
  chaserSpeed :: real
  detectionSensitivity :: real
  fps :: real

text \<open>A callback handed to \<open>setTimeout\<close>, waiting for its delay to pass.\<close>

datatype timeout_callback = restart_after_capture | restart_after_escape

record simulation =
  currentStrategy :: string
  physicsEngine :: physicsEngine
  detectionSystem :: detectionSystem
  collisionDetector :: collisionDetector
  statsTracker :: statsTracker
  objects :: store
  next_ref :: ref
  ligeirinho :: ref
  frajola :: frajola
  captureInProgress :: bool
  escapeInProgress :: bool
  strategy_table :: strategies
  config :: sim_config
  timeouts :: "(nat \<times> timeout_callback) list"

text \<open>
  \<open>this.strategies[strategyName]\<close>. The table is an object literal with the three keys
  \<open>direct\<close>, \<open>predictive\<close> and \<open>patrol\<close>. A look-up by any other name answers \<open>undefined\<close>,
  unless the name is that of a member every object inherits from \<open>Object.prototype\<close>:
  then it answers that member, a function or an object and so a truthy value that is no
  strategy.
\<close>

definition Object_prototype_names :: "string list" where
  "Object_prototype_names =
     [''constructor'', ''hasOwnProperty'', ''isPrototypeOf'', ''propertyIsEnumerable'',
      ''toLocaleString'', ''toString'', ''valueOf'', ''__proto__'',
      ''__defineGetter__'', ''__defineSetter__'', ''__lookupGetter__'', ''__lookupSetter__'']"

datatype lookup_result = own strategy_key | inherited | missing

definition strategies_lookup :: "string \<Rightarrow> lookup_result" where
  "strategies_lookup strategyName =
     (if strategyName = ''direct'' then own Direct
      else if strategyName = ''predictive'' then own Predictive
      else if strategyName = ''patrol'' then own Patrol
      else if strategyName \<in> set Object_prototype_names then inherited
      else missing)"

text \<open>\<open>strategy.calculate(...)\<close> on the strategy object that a key refers to.\<close>

definition Strategy_calculate ::
  "config \<Rightarrow> strategies \<Rightarrow> strategy_key \<Rightarrow> 'a agent_scheme \<Rightarrow> 'b agent_scheme option \<Rightarrow> bool
     \<Rightarrow> (vector2d \<times> strategies) option" where
  "Strategy_calculate cfg table k chaser tgt detected =
     (case k of
        Direct \<Rightarrow>
          do { steering \<leftarrow> DirectStrategy_calculate (direct_strategy table) chaser tgt detected;
               Some (steering, table) }
      | Predictive \<Rightarrow>
          do { steering \<leftarrow> PredictiveStrategy_calculate cfg (predictive_strategy table) chaser tgt detected;
               Some (steering, table) }
      | Patrol \<Rightarrow>
          do { (steering, p) \<leftarrow> PatrolStrategy_calculate (patrol_strategy table) chaser tgt detected;
               Some (steering, table\<lparr>patrol_strategy := p\<rparr>) })"

text \<open>
  \<open>Frajola.update(deltaTime = 1, detectionSystem = null)\<close>. It reads the target through
  the store and calls the strategy through the table, and returns the chaser, the table and
  the detection system as it leaves them.
\<close>

definition Frajola_update ::
  "config \<Rightarrow> store \<Rightarrow> strategies \<Rightarrow> frajola \<Rightarrow> real \<Rightarrow> detectionSystem option
     \<Rightarrow> (frajola \<times> strategies \<times> detectionSystem option) option" where
  "Frajola_update cfg st table this deltaTime ds =
     (if \<not> active this \<or> target this = None then Some (this, table, ds)
      else do {
        let t = st (the (target this));
        let (this1, ds1) =
          (case ds of
             None \<Rightarrow> (this, None)
           | Some d \<Rightarrow>
               let (detected, d') = DetectionSystem_detect d this (Some t)
               in (this\<lparr>targetDetected := detected\<rparr>, Some d'));
        (this2, table2) \<leftarrow>
          (case strategy this1 of
             None \<Rightarrow> Some (this1, table)
           | Some k \<Rightarrow>
               do {
                 (steering, table') \<leftarrow>
                   Strategy_calculate cfg table k this1 (Some t) (targetDetected this1);
                 this' \<leftarrow> Agent_applyForce this1 steering;
                 Some (this', table')
               });
        this3 \<leftarrow> Agent_update this2 deltaTime;
        this4 \<leftarrow>
          (if targetDetected this3 then
             do {
               q \<leftarrow> js_div deltaTime (simulation_defaultFPS cfg);
               Some (this3\<lparr>currentPursuitTime := currentPursuitTime this3 + q\<rparr>)
             }
           else Some this3);
        Some (this4, table2, ds1)
      })"

text \<open>\<open>createAgents\<close>; \<open>r0\<close>, \<open>r1\<close> and \<open>r2\<close> are the random numbers of the spawn.\<close>

definition Simulation_createAgents ::
  "config \<Rightarrow> simulation \<Rightarrow> real \<Rightarrow> real \<Rightarrow> real \<Rightarrow> simulation option" where
  "Simulation_createAgents cfg this r0 r1 r2 =
     do {
       l \<leftarrow> Ligeirinho_spawnAtRandomEdge (Ligeirinho cfg 0 0 (targetSpeed (config this)))
              (canvas_width cfg) (canvas_height cfg) r0 r1 r2;
       let r = next_ref this;
       let f = Frajola cfg (chaser_startX cfg) (chaser_startY cfg) (chaserSpeed (config this));
       Some (this\<lparr>objects := (objects this)(r := l), next_ref := r + 1,
                   ligeirinho := r, frajola := Frajola_setTarget f r\<rparr>)
     }"

text \<open>
  \<open>setStrategy(strategyName)\<close>. For a name the table does not have it reports an error and
  changes nothing. For the name of an inherited member it goes on and installs that
  member in the chaser; the chaser's \<open>strategy\<close> field holds strategies only here, so that
  call has no result in this model (\<open>None\<close>).
\<close>

definition Simulation_setStrategy :: "simulation \<Rightarrow> string \<Rightarrow> simulation option" where
  "Simulation_setStrategy this strategyName =
     (case strategies_lookup strategyName of
        missing \<Rightarrow> Some this
      | inherited \<Rightarrow> None
      | own k \<Rightarrow>
          Some (this\<lparr>currentStrategy := strategyName,
                      frajola := Frajola_setStrategy (frajola this) k\<rparr>))"

definition Simulation_handleCapture :: "config \<Rightarrow> simulation \<Rightarrow> simulation" where
  "Simulation_handleCapture cfg this =
     this\<lparr>statsTracker :=
            StatsTracker_recordCapture (statsTracker this) (currentStrategy this)
              (Agent_distanceTo (frajola this) (objects this (ligeirinho this))),
          timeouts := timeouts this @ [(simulation_captureDelay cfg, restart_after_capture)]\<rparr>"

definition Simulation_handleEscape :: "simulation \<Rightarrow> simulation" where
  "Simulation_handleEscape this =
     this\<lparr>statsTracker := StatsTracker_recordEscape (statsTracker this) (currentStrategy this),
          timeouts := timeouts this @ [(500, restart_after_escape)]\<rparr>"




text \<open>
  The constructor followed by \<open>init\<close>. The fields \<open>ligeirinho\<close> and \<open>frajola\<close> are \<open>null\<close>
  until \<open>createAgents\<close> fills them; here they start with values that \<open>createAgents\<close>
  replaces, and every address of the store holds an object that nothing refers to.
\<close>

definition Simulation :: "config \<Rightarrow> real \<Rightarrow> real \<Rightarrow> real \<Rightarrow> simulation option" where
  "Simulation cfg r0 r1 r2 =
     do {
       let this = \<lparr>
         currentStrategy = ''direct'',
         physicsEngine = PhysicsEngine cfg,
         detectionSystem = DetectionSystem cfg,
         collisionDetector = CollisionDetector cfg,
         statsTracker = StatsTracker,
         objects = (\<lambda>r. Ligeirinho cfg 0 0 (target_defaultSpeed cfg)),
         next_ref = 0,
         ligeirinho = 0,
         frajola = Frajola cfg (chaser_startX cfg) (chaser_startY cfg) (chaser_defaultSpeed cfg),
         captureInProgress = False,
         escapeInProgress = False,
         strategy_table = \<lparr>direct_strategy = DirectStrategy,
                            predictive_strategy = PredictiveStrategy cfg,
                            patrol_strategy = PatrolStrategy cfg\<rparr>,
         config = \<lparr>targetSpeed = target_defaultSpeed cfg, chaserSpeed = chaser_defaultSpeed cfg,
                    detectionSensitivity = detection_baseSensitivity cfg,
                    fps = simulation_defaultFPS cfg\<rparr>,
         timeouts = [] \<rparr>;
       this1 \<leftarrow> Simulation_createAgents cfg this r0 r1 r2;
       Simulation_setStrategy this1 (currentStrategy this1)
     }"

text \<open>\<open>update(deltaTime)\<close>: the argument is not used, the step is the fixed \<open>1.0\<close>.\<close>

definition Simulation_update :: "config \<Rightarrow> simulation \<Rightarrow> simulation option" where
  "Simulation_update cfg this =
     (if captureInProgress this \<or> escapeInProgress this then Some this
      else do {
        let fixedDelta = 1;
        (f, table, ds) \<leftarrow>
          Frajola_update cfg (objects this) (strategy_table this) (frajola this) fixedDelta
            (Some (detectionSystem this));
        l \<leftarrow> Ligeirinho_update (objects this (ligeirinho this)) fixedDelta;
        let f' = PhysicsEngine_constrainToBounds (physicsEngine this) f (8 / 10);
        let this1 = this\<lparr>frajola := f', strategy_table := table,
                          detectionSystem := (case ds of Some d \<Rightarrow> d | None \<Rightarrow> detectionSystem this),
                          objects := (objects this)(ligeirinho this := l)\<rparr>;
        let (captured, cd) =
          CollisionDetector_checkCapture (collisionDetector this1) (Some f') (Some l);
        let this2 = this1\<lparr>collisionDetector := cd\<rparr>;
        if captured then
          Some (Simulation_handleCapture cfg (this2\<lparr>captureInProgress := True\<rparr>))
        else
          let (escaped, l') =
                Ligeirinho_hasEscaped l (canvas_width cfg) (canvas_height cfg)
                  (Some (physics_boundaryMargin cfg));
              this3 = this2\<lparr>objects := (objects this2)(ligeirinho this2 := l')\<rparr>
          in if escaped then Some (Simulation_handleEscape (this3\<lparr>escapeInProgress := True\<rparr>))
             else Some this3
      })"

section \<open>Example states\<close>

text \<open>A chaser at the centre of the arena that has not detected its target, and a target
  50 units away from it.\<close>

definition example_chaser :: frajola where
  "example_chaser = Frajola_setTarget (Frajola CONFIG 700 450 9) 0"

definition example_target :: ligeirinho where
  "example_target = Agent_setVelocity (Ligeirinho CONFIG 730 490 8) 8 0"

definition example_store :: store where
  "example_store = (\<lambda>r. example_target)"




text \<open>
  A simulation running the Patrol strategy in which a capture has just been resolved: the
  chaser patrolled for 120 frames, detected the target and caught it, and the restart is
  waiting for its delay.
\<close>

definition example_after_capture :: simulation where
  "example_after_capture = \<lparr>
     currentStrategy = ''patrol'',
     physicsEngine = PhysicsEngine CONFIG,
     detectionSystem = DetectionSystem CONFIG,
     collisionDetector = CollisionDetector CONFIG,
     statsTracker = StatsTracker\<lparr>attempts := 1, captures := 1\<rparr>,
     objects = example_store,
     next_ref = 1,
     ligeirinho = 0,
     frajola = Frajola_setStrategy (example_chaser\<lparr>targetDetected := True\<rparr>) Patrol,
     captureInProgress = True,
     escapeInProgress = False,
     strategy_table = \<lparr>direct_strategy = DirectStrategy,
                        predictive_strategy = PredictiveStrategy CONFIG,
                        patrol_strategy = (PatrolStrategy CONFIG)\<lparr>state := pursue, patrolTime := 120\<rparr>\<rparr>,
     config = \<lparr>targetSpeed = 8, chaserSpeed = 9, detectionSensitivity = 9 / 10, fps = 60\<rparr>,
     timeouts = [(2000, restart_after_capture)] \<rparr>"

text \<open>The same simulation one frame earlier, before the capture was resolved.\<close>

definition example_running :: simulation where
  "example_running =
     example_after_capture\<lparr>captureInProgress := False, timeouts := [],
                            statsTracker := StatsTracker\<lparr>attempts := 1\<rparr>\<rparr>"

section \<open>Facts about the vector primitive\<close>

text \<open>The lemmas of this section and the helper lemmas further down are facts of the
  model's exact arithmetic; they serve the proofs.\<close>

lemma Vector2D_divide_Some:
  "Vector2D_divide v s = Some (if s \<noteq> 0 then \<lparr>vx = vx v / s, vy = vy v / s\<rparr> else v)"
  by (simp add: Vector2D_divide_def js_div_def)

lemma Vector2D_normalize_Some:
  "Vector2D_normalize v =
     Some (if Vector2D_magnitude v > 0
           then \<lparr>vx = vx v / Vector2D_magnitude v, vy = vy v / Vector2D_magnitude v\<rparr>
           else v)"
  by (simp add: Vector2D_normalize_def Let_def Vector2D_divide_Some)







lemma Vector2D_limit_Some:
  "Vector2D_limit v m =
     Some (if Vector2D_magnitudeSquared v > m * m
           then Vector2D_multiply
                  (if Vector2D_magnitude v > 0
                   then \<lparr>vx = vx v / Vector2D_magnitude v, vy = vy v / Vector2D_magnitude v\<rparr>
                   else v) m
           else v)"
  by (simp add: Vector2D_limit_def Let_def Vector2D_normalize_Some)


section \<open>Properties\<close>


lemma sqrt_2500: "sqrt 2500 = 50"
  by (rule real_sqrt_unique) simp_all

text \<open>
  C8. Normalising the zero vector gives the zero vector, and dividing a vector by zero
  gives the vector back. Neither operation ever divides by zero: \<open>normalize\<close> and \<open>divide\<close>
  return a vector for every argument.
\<close>

theorem normalize_and_divide_never_divide_by_zero:
  "Vector2D_normalize (Vector2D 0 0) = Some (Vector2D 0 0)
   \<and> Vector2D_divide v 0 = Some v
   \<and> Vector2D_normalize v \<noteq> None
   \<and> Vector2D_divide v s \<noteq> None"
  by (simp add: Vector2D_normalize_Some Vector2D_divide_Some Vector2D_magnitude_def Vector2D_def)

theorem normalize_and_divide_never_divide_by_zero_witness:
  "Vector2D_normalize (Vector2D 0 0) = Some (Vector2D 0 0)
   \<and> Vector2D_divide (Vector2D 3 4) 0 = Some (Vector2D 3 4)
   \<and> Vector2D_normalize (Vector2D 3 4) \<noteq> None
   \<and> Vector2D_divide (Vector2D 3 4) 2 \<noteq> None"
  using normalize_and_divide_never_divide_by_zero [of "Vector2D 3 4" 2] by simp

lemma calculateAdaptiveLookahead_Some:
  "PredictiveStrategy_calculateAdaptiveLookahead d = Some (MathUtils_clamp d 0 400 * 17 / 400 + 3)"
  by (simp add: PredictiveStrategy_calculateAdaptiveLookahead_def MathUtils_map_def js_div_def)

text \<open>
  C6. The adaptive lookahead is defined for every distance, does not decrease when the
  distance grows, lies between 3 and 20, and is 3 at distance 0 and below and 20 at
  distance 400 and above.
\<close>

theorem adaptive_lookahead_monotone_clamped:
  "\<exists>l1 l2. PredictiveStrategy_calculateAdaptiveLookahead d1 = Some l1
         \<and> PredictiveStrategy_calculateAdaptiveLookahead d2 = Some l2
         \<and> (d1 \<le> d2 \<longrightarrow> l1 \<le> l2)
         \<and> 3 \<le> l1 \<and> l1 \<le> 20
         \<and> (d1 \<le> 0 \<longrightarrow> l1 = 3)
         \<and> (400 \<le> d1 \<longrightarrow> l1 = 20)"
  by (auto simp add: calculateAdaptiveLookahead_Some MathUtils_clamp_def min_def max_def)

theorem adaptive_lookahead_monotone_clamped_witness:
  "PredictiveStrategy_calculateAdaptiveLookahead 100 = Some (29 / 4)
   \<and> PredictiveStrategy_calculateAdaptiveLookahead 300 = Some (63 / 4)
   \<and> PredictiveStrategy_calculateAdaptiveLookahead (- 5) = Some 3
   \<and> PredictiveStrategy_calculateAdaptiveLookahead 1000 = Some 20"
  using adaptive_lookahead_monotone_clamped [of 100 300]
        adaptive_lookahead_monotone_clamped [of "- 5" 1000]
        adaptive_lookahead_monotone_clamped [of 1000 1000]
  by (simp add: calculateAdaptiveLookahead_Some MathUtils_clamp_def)

text \<open>
  C2. The escape check answers true exactly when the target's position is outside the
  rectangle \<open>[-margin, width + margin] \<times> [-margin, height + margin]\<close>; without a margin
  argument the margin is 50.
\<close>

theorem hasEscaped_iff_outside_expanded_arena:
  "fst (Ligeirinho_hasEscaped t w h (Some m))
     = ((vx (position t), vy (position t)) \<notin> {- m .. w + m} \<times> {- m .. h + m})
   \<and> fst (Ligeirinho_hasEscaped t w h None)
     = ((vx (position t), vy (position t)) \<notin> {- 50 .. w + 50} \<times> {- 50 .. h + 50})"
  by (auto simp add: Ligeirinho_hasEscaped_def Let_def)

theorem hasEscaped_iff_outside_expanded_arena_witness:
  "fst (Ligeirinho_hasEscaped (Agent_setPosition (Ligeirinho CONFIG 0 0 8) 1501 450) 1400 900 (Some 100))
   \<and> \<not> fst (Ligeirinho_hasEscaped (Agent_setPosition (Ligeirinho CONFIG 0 0 8) 1500 450) 1400 900 (Some 100))"
  using hasEscaped_iff_outside_expanded_arena
          [of "Agent_setPosition (Ligeirinho CONFIG 0 0 8) 1501 450" 1400 900 100]
        hasEscaped_iff_outside_expanded_arena
          [of "Agent_setPosition (Ligeirinho CONFIG 0 0 8) 1500 450" 1400 900 100]
  by (simp add: Agent_setPosition_def Ligeirinho_def Vector2D_def)

text \<open>
  C1. For a chaser and a target, the capture check answers true exactly when the target
  is active and the distance between the two is below \<open>captureDistance\<close>. The chaser's
  \<open>targetDetected\<close> flag has no part in it: the answer is the same for either value.
\<close>

theorem checkCapture_iff_close_and_active:
  fixes chaser :: frajola and tgt :: ligeirinho
  shows "fst (CollisionDetector_checkCapture this (Some chaser) (Some tgt))
           = (active tgt \<and> Agent_distanceTo chaser tgt < captureDistance this)
         \<and> fst (CollisionDetector_checkCapture this (Some (chaser\<lparr>targetDetected := b\<rparr>)) (Some tgt))
           = fst (CollisionDetector_checkCapture this (Some chaser) (Some tgt))"
  by (simp add: CollisionDetector_checkCapture_def Let_def Agent_distanceTo_def)

theorem checkCapture_iff_close_and_active_witness:
  "\<not> targetDetected example_chaser
   \<and> fst (CollisionDetector_checkCapture (CollisionDetector CONFIG)
            (Some example_chaser) (Some example_target))"
proof -
  have "Agent_distanceTo example_chaser example_target = 50"
    by (simp add: Agent_distanceTo_def Vector2D_distanceTo_def example_chaser_def
          example_target_def Frajola_def Frajola_setTarget_def Ligeirinho_def
          Agent_setVelocity_def Vector2D_def sqrt_2500)
  moreover have "active example_target" "\<not> targetDetected example_chaser"
    by (simp_all add: example_target_def example_chaser_def Ligeirinho_def Frajola_def
          Frajola_setTarget_def Agent_setVelocity_def)
  moreover have "captureDistance (CollisionDetector CONFIG) = 60"
    by (simp add: CollisionDetector_def CONFIG_def)
  ultimately show ?thesis
    using checkCapture_iff_close_and_active
            [of "CollisionDetector CONFIG" example_chaser example_target False]
    by simp
qed

text \<open>
  C10. The chaser's own \<open>attemptCapture\<close> answers true exactly when it has a target, its
  \<open>targetDetected\<close> flag is set and the distance to the target is below the capture
  distance; so it answers false without a target or without detection, however close
  the target is.
\<close>

theorem attemptCapture_requires_detection:
  "fst (Frajola_attemptCapture cfg st this (Some d))
     = (\<exists>r. target this = Some r \<and> targetDetected this \<and> Agent_distanceTo this (st r) < d)
   \<and> fst (Frajola_attemptCapture cfg st this None)
     = (\<exists>r. target this = Some r \<and> targetDetected this
            \<and> Agent_distanceTo this (st r) < physics_captureDistance cfg)
   \<and> (target this = None \<or> \<not> targetDetected this
        \<longrightarrow> Frajola_attemptCapture cfg st this dist_arg = (False, this))"
  by (auto simp add: Frajola_attemptCapture_def Let_def split: option.splits)

theorem attemptCapture_requires_detection_witness:
  "Frajola_attemptCapture CONFIG example_store example_chaser None = (False, example_chaser)
   \<and> fst (Frajola_attemptCapture CONFIG example_store
            (example_chaser\<lparr>targetDetected := True\<rparr>) None)"
proof -
  have d: "Agent_distanceTo (example_chaser\<lparr>targetDetected := True\<rparr>) (example_store 0) = 50"
    by (simp add: Agent_distanceTo_def Vector2D_distanceTo_def example_chaser_def
          example_target_def example_store_def Frajola_def Frajola_setTarget_def Ligeirinho_def
          Agent_setVelocity_def Vector2D_def sqrt_2500)
  have t: "target example_chaser = Some 0" "\<not> targetDetected example_chaser"
    by (simp_all add: example_chaser_def Frajola_def Frajola_setTarget_def)
  have c: "physics_captureDistance CONFIG = 60"
    by (simp add: CONFIG_def)
  show ?thesis
    using attemptCapture_requires_detection [of CONFIG example_store example_chaser 60 None]
          attemptCapture_requires_detection
            [of CONFIG example_store "example_chaser\<lparr>targetDetected := True\<rparr>" 60 None]
          d t c
    by simp
qed

lemma Vector2D_setMagnitude_Some:
  "Vector2D_setMagnitude v m =
     Some (Vector2D_multiply
             (if Vector2D_magnitude v > 0
              then \<lparr>vx = vx v / Vector2D_magnitude v, vy = vy v / Vector2D_magnitude v\<rparr>
              else v) m)"
  by (simp add: Vector2D_setMagnitude_def Vector2D_normalize_Some)


lemma Agent_update_Some:
  "\<exists>a'. Agent_update a dt = Some a'
        \<and> maxSpeed a' = maxSpeed a \<and> mass a' = mass a \<and> active a' = active a
        \<and> agent_size a' = agent_size a \<and> agent.more a' = agent.more a
        \<and> (if active a
            then Vector2D_limit (Vector2D_add (velocity a) (acceleration a)) (maxSpeed a)
                   = Some (velocity a')
            else velocity a' = velocity a)"
proof (cases "active a")
  case False
  then show ?thesis by (simp add: Agent_update_def)
next
  case True
  obtain w where w: "Vector2D_limit (Vector2D_add (velocity a) (acceleration a)) (maxSpeed a) = Some w"
    by (simp add: Vector2D_limit_Some)
  then show ?thesis using True
    by (simp add: Agent_update_def Agent_updateTrail_def Let_def)
qed

lemma Ligeirinho_update_Some:
  "\<exists>t'. Ligeirinho_update t dt = Some t'
        \<and> maxSpeed t' = maxSpeed t \<and> active t' = active t
        \<and> escapeAttempts t' = escapeAttempts t
        \<and> (\<exists>w. (if active t
                 then Vector2D_limit (Vector2D_add (velocity t) (acceleration t)) (maxSpeed t) = Some w
                 else w = velocity t)
               \<and> Vector2D_setMagnitude w (maxSpeed t) = Some (velocity t'))"
proof -
  obtain a' where a': "Agent_update t dt = Some a'" "maxSpeed a' = maxSpeed t"
      "active a' = active t" "agent.more a' = agent.more t"
      "if active t
       then Vector2D_limit (Vector2D_add (velocity t) (acceleration t)) (maxSpeed t) = Some (velocity a')
       else velocity a' = velocity t"
    using Agent_update_Some [of t dt] by blast
  obtain v where v: "Vector2D_setMagnitude (velocity a') (maxSpeed a') = Some v"
    by (simp add: Vector2D_setMagnitude_Some)
  have esc: "escapeAttempts a' = escapeAttempts t"
    using a'(4) by (cases a', cases t) simp
  have "Ligeirinho_update t dt = Some (a'\<lparr>velocity := v\<rparr>)"
    using a'(1) v by (simp add: Ligeirinho_update_def)
  moreover have "\<exists>w. (if active t
                 then Vector2D_limit (Vector2D_add (velocity t) (acceleration t)) (maxSpeed t) = Some w
                 else w = velocity t)
               \<and> Vector2D_setMagnitude w (maxSpeed t) = Some v"
    using a'(5) a'(2) v by (cases "active t") auto
  ultimately show ?thesis using a'(2,3) esc by simp
qed





section \<open>The strategies\<close>

lemma Strategy_seek_Some: "\<exists>f. Strategy_seek a b c d e = Some f"
  by (simp add: Strategy_seek_def Let_def Vector2D_normalize_Some Vector2D_limit_Some)

lemma patrolBehavior_Some: "\<exists>f. PatrolStrategy_patrolBehavior q chaser = Some f"
  by (simp add: PatrolStrategy_patrolBehavior_def Let_def Vector2D_normalize_Some
        Vector2D_limit_Some)

text \<open>
  C5 (as the code has it). Direct and Predictive return the zero force when the strategy
  is deactivated or the target is \<open>null\<close>. Patrol returns the zero force, and keeps its
  fields, when it is deactivated. An active Patrol strategy called without a target does
  not return zero: it returns its patrol steering and advances \<open>patrolTime\<close> by one.
\<close>

theorem strategies_zero_force:
  fixes chaser :: frajola and tgt :: "ligeirinho option"
  shows "(\<not> is_active d \<or> tgt = None
            \<longrightarrow> DirectStrategy_calculate d chaser tgt det = Some (Vector2D 0 0))
       \<and> (\<not> is_active p \<or> tgt = None
            \<longrightarrow> PredictiveStrategy_calculate cfg p chaser tgt det = Some (Vector2D 0 0))
       \<and> (\<not> is_active q
            \<longrightarrow> PatrolStrategy_calculate q chaser tgt det = Some (Vector2D 0 0, q))
       \<and> (is_active q
            \<longrightarrow> (\<exists>f. PatrolStrategy_patrolBehavior (PatrolStrategy_updateState q det) chaser = Some f
                    \<and> PatrolStrategy_calculate q chaser (None :: ligeirinho option) det
                        = Some (f, (PatrolStrategy_updateState q det)\<lparr>patrolTime := patrolTime q + 1\<rparr>)))"
proof -
  obtain f where f: "PatrolStrategy_patrolBehavior (PatrolStrategy_updateState q det) chaser = Some f"
    using patrolBehavior_Some by blast
  have "patrolTime (PatrolStrategy_updateState q det) = patrolTime q"
    by (simp add: PatrolStrategy_updateState_def)
  with f have "is_active q \<longrightarrow>
      PatrolStrategy_calculate q chaser (None :: ligeirinho option) det
        = Some (f, (PatrolStrategy_updateState q det)\<lparr>patrolTime := patrolTime q + 1\<rparr>)"
    by (simp add: PatrolStrategy_calculate_def Let_def)
  with f show ?thesis
    by (auto simp add: DirectStrategy_calculate_def PredictiveStrategy_calculate_def
          PatrolStrategy_calculate_def)
qed

theorem strategies_zero_force_witness:
  "DirectStrategy_calculate (Strategy_deactivate DirectStrategy)
       example_chaser (Some example_target) True = Some (Vector2D 0 0)
   \<and> DirectStrategy_calculate DirectStrategy example_chaser (None :: ligeirinho option) True
       = Some (Vector2D 0 0)
   \<and> PredictiveStrategy_calculate CONFIG (Strategy_deactivate (PredictiveStrategy CONFIG))
       example_chaser (Some example_target) True = Some (Vector2D 0 0)
   \<and> PredictiveStrategy_calculate CONFIG (PredictiveStrategy CONFIG)
       example_chaser (None :: ligeirinho option) True = Some (Vector2D 0 0)
   \<and> PatrolStrategy_calculate (Strategy_deactivate (PatrolStrategy CONFIG))
       example_chaser (None :: ligeirinho option) False
       = Some (Vector2D 0 0, Strategy_deactivate (PatrolStrategy CONFIG))"
  using strategies_zero_force
          [of "Strategy_deactivate DirectStrategy" "Some example_target"
              example_chaser True "Strategy_deactivate (PredictiveStrategy CONFIG)" CONFIG
              "Strategy_deactivate (PatrolStrategy CONFIG)"]
        strategies_zero_force
          [of DirectStrategy None example_chaser True "PredictiveStrategy CONFIG" CONFIG
              "Strategy_deactivate (PatrolStrategy CONFIG)"]
        strategies_zero_force
          [of DirectStrategy None example_chaser False "PredictiveStrategy CONFIG" CONFIG
              "Strategy_deactivate (PatrolStrategy CONFIG)"]
  by (simp add: Strategy_deactivate_def)

lemma sqrt_10000: "sqrt 10000 = 100"
  by (rule real_sqrt_unique) simp_all

lemma sqrt_81_4: "sqrt (81 / 4) = 9 / 2"
  by (rule real_sqrt_unique) (simp_all add: power2_eq_square)

text \<open>The claim as the specification words it fails for a fresh, active Patrol strategy
  called without a target: the force is \<open>(1/2, 0)\<close>.\<close>

theorem patrol_without_target_counterexample:
  "is_active (PatrolStrategy CONFIG)
   \<and> PatrolStrategy_calculate (PatrolStrategy CONFIG) example_chaser (None :: ligeirinho option) False
       = Some (Vector2D (1 / 2) 0, (PatrolStrategy CONFIG)\<lparr>patrolTime := 1\<rparr>)
   \<and> Vector2D (1 / 2) 0 \<noteq> Vector2D 0 0"
  by (simp add: PatrolStrategy_calculate_def PatrolStrategy_updateState_def
        PatrolStrategy_patrolBehavior_def PatrolStrategy_def CONFIG_def Let_def
        example_chaser_def Frajola_def Frajola_setTarget_def js_or_def
        Vector2D_normalize_Some Vector2D_limit_Some
        Vector2D_subtract_def Vector2D_multiply_def Vector2D_def
        Vector2D_magnitude_def Vector2D_magnitudeSquared_def
        sqrt_10000 sqrt_81_4)

section \<open>Starting a new attempt\<close>







section \<open>The frame\<close>

lemma Strategy_calculate_Some:
  "\<exists>r. Strategy_calculate cfg table k chaser tgt det = Some r"
  by (cases k)
     (simp_all add: Strategy_calculate_def DirectStrategy_calculate_def
        PredictiveStrategy_calculate_def PatrolStrategy_calculate_def
        PatrolStrategy_pursueBehavior_def Let_def split_def bind_eq_Some_conv
        Strategy_seek_Some patrolBehavior_Some calculateAdaptiveLookahead_Some)

lemma Agent_applyForce_Some:
  "mass a \<noteq> 0 \<Longrightarrow> \<exists>a'. Agent_applyForce a f = Some a'"
  by (simp add: Agent_applyForce_def js_div_def)

lemma Frajola_update_Some:
  assumes "mass this \<noteq> 0" and "simulation_defaultFPS cfg \<noteq> 0"
  shows "\<exists>r. Frajola_update cfg st table this dt ds = Some r"
proof -
  define steer where
    "steer = (\<lambda>k (c :: frajola) (t :: ligeirinho option) d. the (Strategy_calculate cfg table k c t d))"
  have s: "Strategy_calculate cfg table k c t d = Some (steer k c t d)" for k c t d
    using Strategy_calculate_Some [of cfg table k c t d] by (auto simp add: steer_def)
  define force where "force = (\<lambda>(a :: frajola) f. the (Agent_applyForce a f))"
  have f: "Agent_applyForce a v = Some (force a v)" if "mass a = mass this" for a v
    using Agent_applyForce_Some [of a v] that assms(1) by (auto simp add: force_def)
  define upd where "upd = (\<lambda>a :: frajola. the (Agent_update a dt))"
  have u: "Agent_update a dt = Some (upd a)" for a
    using Agent_update_Some [of a dt] by (auto simp add: upd_def)
  show ?thesis
    using assms(2)
    by (simp add: Frajola_update_def Let_def split_def s f u js_div_def split: option.splits)
qed


lemma frame_outcome:
  assumes "\<not> captureInProgress s" and "\<not> escapeInProgress s"
    and "Frajola_update cfg (objects s) (strategy_table s) (frajola s) 1 (Some (detectionSystem s))
           = Some r"
    and "Ligeirinho_update (objects s (ligeirinho s)) 1 = Some l"
  shows "\<exists>s'. Simulation_update cfg s = Some s'
           \<and> ligeirinho s' = ligeirinho s
             \<and> \<not> (captureInProgress s' \<and> escapeInProgress s')
             \<and> captureInProgress s'
                 = (active (objects s' (ligeirinho s'))
                    \<and> Agent_distanceTo (frajola s') (objects s' (ligeirinho s'))
                        < captureDistance (collisionDetector s))
             \<and> escapeInProgress s'
                 = (\<not> captureInProgress s'
                    \<and> (vx (position (objects s' (ligeirinho s'))),
                        vy (position (objects s' (ligeirinho s'))))
                       \<notin> {- physics_boundaryMargin cfg .. canvas_width cfg + physics_boundaryMargin cfg}
                          \<times> {- physics_boundaryMargin cfg .. canvas_height cfg + physics_boundaryMargin cfg})
             \<and> (captureInProgress s'
                  \<longrightarrow> captures (statsTracker s') = captures (statsTracker s) + 1
                    \<and> escapes (statsTracker s') = escapes (statsTracker s)
                    \<and> escapeAttempts (objects s' (ligeirinho s'))
                        = escapeAttempts (objects s (ligeirinho s))
                    \<and> timeouts s' = timeouts s @ [(simulation_captureDelay cfg, restart_after_capture)])
             \<and> (escapeInProgress s'
                  \<longrightarrow> captures (statsTracker s') = captures (statsTracker s)
                    \<and> escapes (statsTracker s') = escapes (statsTracker s) + 1
                    \<and> escapeAttempts (objects s' (ligeirinho s'))
                        = escapeAttempts (objects s (ligeirinho s)) + 1
                    \<and> timeouts s' = timeouts s @ [(500, restart_after_escape)])
             \<and> (\<not> captureInProgress s' \<and> \<not> escapeInProgress s'
                  \<longrightarrow> statsTracker s' = statsTracker s
                    \<and> escapeAttempts (objects s' (ligeirinho s'))
                        = escapeAttempts (objects s (ligeirinho s))
                    \<and> timeouts s' = timeouts s)"
proof -
  have "escapeAttempts l = escapeAttempts (objects s (ligeirinho s))"
    using Ligeirinho_update_Some [of "objects s (ligeirinho s)" 1] assms(4) by auto
  then show ?thesis
    using assms
    by (auto simp add: Simulation_update_def Let_def split_def
          CollisionDetector_checkCapture_def CollisionDetector_recordCollision_def
          Ligeirinho_hasEscaped_def Simulation_handleCapture_def Simulation_handleEscape_def
          StatsTracker_recordCapture_def StatsTracker_recordEscape_def
          StatsTracker_trimHistory_def Agent_distanceTo_def)
qed

text \<open>
  C9. A frame that starts while a capture or an escape is being resolved changes nothing.
  A frame returns whenever the chaser's mass and \<open>defaultFPS\<close>, the two numbers it divides
  by, are not zero. Every other frame that returns resolves at most one outcome. Capture is
  decided first, on the agents as the frame moved them: it fires exactly when the target
  is active and closer than \<open>captureDistance\<close>. Escape fires exactly when capture did not
  and the target is outside the arena expanded by the boundary margin. When capture fires
  the escape check is not run: no escape is recorded and the target's escape counter is
  not touched, wherever the target is.
\<close>

theorem update_resolves_capture_before_escape:
  "(captureInProgress s \<or> escapeInProgress s \<longrightarrow> Simulation_update cfg s = Some s)
   \<and> (mass (frajola s) \<noteq> 0 \<and> simulation_defaultFPS cfg \<noteq> 0
        \<longrightarrow> (\<exists>s'. Simulation_update cfg s = Some s'))
   \<and> (\<forall>s'. \<not> captureInProgress s \<and> \<not> escapeInProgress s \<and> Simulation_update cfg s = Some s'
        \<longrightarrow> ligeirinho s' = ligeirinho s
             \<and> \<not> (captureInProgress s' \<and> escapeInProgress s')
             \<and> captureInProgress s'
                 = (active (objects s' (ligeirinho s'))
                    \<and> Agent_distanceTo (frajola s') (objects s' (ligeirinho s'))
                        < captureDistance (collisionDetector s))
             \<and> escapeInProgress s'
                 = (\<not> captureInProgress s'
                    \<and> (vx (position (objects s' (ligeirinho s'))),
                        vy (position (objects s' (ligeirinho s'))))
                       \<notin> {- physics_boundaryMargin cfg .. canvas_width cfg + physics_boundaryMargin cfg}
                          \<times> {- physics_boundaryMargin cfg .. canvas_height cfg + physics_boundaryMargin cfg})
             \<and> (captureInProgress s'
                  \<longrightarrow> captures (statsTracker s') = captures (statsTracker s) + 1
                    \<and> escapes (statsTracker s') = escapes (statsTracker s)
                    \<and> escapeAttempts (objects s' (ligeirinho s'))
                        = escapeAttempts (objects s (ligeirinho s))
                    \<and> timeouts s' = timeouts s @ [(simulation_captureDelay cfg, restart_after_capture)])
             \<and> (escapeInProgress s'
                  \<longrightarrow> captures (statsTracker s') = captures (statsTracker s)
                    \<and> escapes (statsTracker s') = escapes (statsTracker s) + 1
                    \<and> escapeAttempts (objects s' (ligeirinho s'))
                        = escapeAttempts (objects s (ligeirinho s)) + 1
                    \<and> timeouts s' = timeouts s @ [(500, restart_after_escape)])
             \<and> (\<not> captureInProgress s' \<and> \<not> escapeInProgress s'
                  \<longrightarrow> statsTracker s' = statsTracker s
                    \<and> escapeAttempts (objects s' (ligeirinho s'))
                        = escapeAttempts (objects s (ligeirinho s))
                    \<and> timeouts s' = timeouts s))"
proof -
  have p1: "Simulation_update cfg s = Some s" if "captureInProgress s \<or> escapeInProgress s"
    using that by (auto simp add: Simulation_update_def)
  have p2: "\<exists>s'. Simulation_update cfg s = Some s'"
    if a: "mass (frajola s) \<noteq> 0 \<and> simulation_defaultFPS cfg \<noteq> 0"
  proof -
    obtain r where "Frajola_update cfg (objects s) (strategy_table s) (frajola s) 1
                      (Some (detectionSystem s)) = Some r"
      using Frajola_update_Some [of "frajola s" cfg "objects s" "strategy_table s" 1
              "Some (detectionSystem s)"] a
      by blast
    moreover obtain l where "Ligeirinho_update (objects s (ligeirinho s)) 1 = Some l"
      using Ligeirinho_update_Some [of "objects s (ligeirinho s)" 1] by blast
    ultimately show ?thesis
      by (simp add: Simulation_update_def Let_def split_def)
  qed
  have p3: "ligeirinho s' = ligeirinho s
             \<and> \<not> (captureInProgress s' \<and> escapeInProgress s')
             \<and> captureInProgress s'
                 = (active (objects s' (ligeirinho s'))
                    \<and> Agent_distanceTo (frajola s') (objects s' (ligeirinho s'))
                        < captureDistance (collisionDetector s))
             \<and> escapeInProgress s'
                 = (\<not> captureInProgress s'
                    \<and> (vx (position (objects s' (ligeirinho s'))),
                        vy (position (objects s' (ligeirinho s'))))
                       \<notin> {- physics_boundaryMargin cfg .. canvas_width cfg + physics_boundaryMargin cfg}
                          \<times> {- physics_boundaryMargin cfg .. canvas_height cfg + physics_boundaryMargin cfg})
             \<and> (captureInProgress s'
                  \<longrightarrow> captures (statsTracker s') = captures (statsTracker s) + 1
                    \<and> escapes (statsTracker s') = escapes (statsTracker s)
                    \<and> escapeAttempts (objects s' (ligeirinho s'))
                        = escapeAttempts (objects s (ligeirinho s))
                    \<and> timeouts s' = timeouts s @ [(simulation_captureDelay cfg, restart_after_capture)])
             \<and> (escapeInProgress s'
                  \<longrightarrow> captures (statsTracker s') = captures (statsTracker s)
                    \<and> escapes (statsTracker s') = escapes (statsTracker s) + 1
                    \<and> escapeAttempts (objects s' (ligeirinho s'))
                        = escapeAttempts (objects s (ligeirinho s)) + 1
                    \<and> timeouts s' = timeouts s @ [(500, restart_after_escape)])
             \<and> (\<not> captureInProgress s' \<and> \<not> escapeInProgress s'
                  \<longrightarrow> statsTracker s' = statsTracker s
                    \<and> escapeAttempts (objects s' (ligeirinho s'))
                        = escapeAttempts (objects s (ligeirinho s))
                    \<and> timeouts s' = timeouts s)"
    if a: "\<not> captureInProgress s \<and> \<not> escapeInProgress s \<and> Simulation_update cfg s = Some s'"
    for s'
  proof -
    have "Frajola_update cfg (objects s) (strategy_table s) (frajola s) 1 (Some (detectionSystem s))
            \<noteq> None"
    proof
      assume "Frajola_update cfg (objects s) (strategy_table s) (frajola s) 1
                (Some (detectionSystem s)) = None"
      with a have "Simulation_update cfg s = None" by (simp add: Simulation_update_def)
      with a show False by simp
    qed
    then obtain r where fu:
      "Frajola_update cfg (objects s) (strategy_table s) (frajola s) 1 (Some (detectionSystem s))
         = Some r"
      by blast
    obtain l where lu: "Ligeirinho_update (objects s (ligeirinho s)) 1 = Some l"
      using Ligeirinho_update_Some [of "objects s (ligeirinho s)" 1] by blast
    obtain s'' where s'': "Simulation_update cfg s = Some s''"
      and p: "ligeirinho s'' = ligeirinho s
             \<and> \<not> (captureInProgress s'' \<and> escapeInProgress s'')
             \<and> captureInProgress s''
                 = (active (objects s'' (ligeirinho s''))
                    \<and> Agent_distanceTo (frajola s'') (objects s'' (ligeirinho s''))
                        < captureDistance (collisionDetector s))
             \<and> escapeInProgress s''
                 = (\<not> captureInProgress s''
                    \<and> (vx (position (objects s'' (ligeirinho s''))),
                        vy (position (objects s'' (ligeirinho s''))))
                       \<notin> {- physics_boundaryMargin cfg .. canvas_width cfg + physics_boundaryMargin cfg}
                          \<times> {- physics_boundaryMargin cfg .. canvas_height cfg + physics_boundaryMargin cfg})
             \<and> (captureInProgress s''
                  \<longrightarrow> captures (statsTracker s'') = captures (statsTracker s) + 1
                    \<and> escapes (statsTracker s'') = escapes (statsTracker s)
                    \<and> escapeAttempts (objects s'' (ligeirinho s''))
                        = escapeAttempts (objects s (ligeirinho s))
                    \<and> timeouts s'' = timeouts s @ [(simulation_captureDelay cfg, restart_after_capture)])
             \<and> (escapeInProgress s''
                  \<longrightarrow> captures (statsTracker s'') = captures (statsTracker s)
                    \<and> escapes (statsTracker s'') = escapes (statsTracker s) + 1
                    \<and> escapeAttempts (objects s'' (ligeirinho s''))
                        = escapeAttempts (objects s (ligeirinho s)) + 1
                    \<and> timeouts s'' = timeouts s @ [(500, restart_after_escape)])
             \<and> (\<not> captureInProgress s'' \<and> \<not> escapeInProgress s''
                  \<longrightarrow> statsTracker s'' = statsTracker s
                    \<and> escapeAttempts (objects s'' (ligeirinho s''))
                        = escapeAttempts (objects s (ligeirinho s))
                    \<and> timeouts s'' = timeouts s)"
      using frame_outcome [OF _ _ fu lu] a by blast
    from s'' a have eq: "s'' = s'" by simp
    show ?thesis using p unfolding eq .
  qed
  show ?thesis
    by (rule conjI, rule impI, erule p1, rule conjI, rule impI, erule p2,
        rule allI, rule impI, erule p3)
qed

theorem update_resolves_capture_before_escape_witness:
  "Simulation_update CONFIG example_after_capture = Some example_after_capture
   \<and> (\<exists>s'. Simulation_update CONFIG example_running = Some s'
           \<and> \<not> (captureInProgress s' \<and> escapeInProgress s')
           \<and> captures (statsTracker s') + escapes (statsTracker s') \<le> 1)"
proof -
  have c: "captureInProgress example_after_capture"
    by (simp add: example_after_capture_def)
  have r: "\<not> captureInProgress example_running" "\<not> escapeInProgress example_running"
      "mass (frajola example_running) \<noteq> 0" "simulation_defaultFPS CONFIG \<noteq> 0"
    by (simp_all add: example_running_def example_after_capture_def example_chaser_def
          Frajola_setStrategy_def Frajola_setTarget_def Frajola_def CONFIG_def)
  have z: "captures (statsTracker example_running) = 0" "escapes (statsTracker example_running) = 0"
    by (simp_all add: example_running_def StatsTracker_def)
  have w1: "Simulation_update CONFIG example_after_capture = Some example_after_capture"
    using update_resolves_capture_before_escape [of example_after_capture CONFIG, THEN conjunct1] c
    by simp
  obtain s' where s': "Simulation_update CONFIG example_running = Some s'"
    using update_resolves_capture_before_escape
            [of example_running CONFIG, THEN conjunct2, THEN conjunct1] r
    by blast
  have "\<not> captureInProgress example_running \<and> \<not> escapeInProgress example_running
          \<and> Simulation_update CONFIG example_running = Some s'"
    using r s' by simp
  from update_resolves_capture_before_escape
         [of example_running CONFIG, THEN conjunct2, THEN conjunct2, rule_format, OF this]
  have "\<not> (captureInProgress s' \<and> escapeInProgress s')"
    and "captures (statsTracker s') + escapes (statsTracker s') \<le> 1"
    using z by (cases "captureInProgress s'"; cases "escapeInProgress s'"; simp)+
  with w1 s' show ?thesis by blast
qed

end
